theory Spec2Isabelle
  imports Main "HOL-Library.Word" "HOL-Library.Monad_Syntax"
begin

section \<open>The sun4i power module: a shallow embedding of power\_sun4i.c\<close>

text \<open>
  The module adjusts cpufreq and Mali attributes under /sys. Its three entry points are
  \<open>sun4i_power_init\<close>, \<open>sun4i_power_set_interactive\<close> and \<open>sun4i_power_hint\<close>.

  Conventions of the embedding.
  \<^item> A C character array is a \<open>char list\<close> of exactly the declared size. Every access
    outside the array (a store, a \<open>strlen\<close> or \<open>strncmp\<close> that runs off the end) makes
    the function return \<open>None\<close>; \<open>Some\<close> therefore means that all accesses were in bounds.
  \<^item> The kernel side is a parameter: the fields \<open>rd_attr\<close>, \<open>open_wr\<close>, \<open>wr_fd\<close> and
    \<open>strerror\<close> of the world give the outcome of each system call. Attribute contents are
    stable during one call of an entry point; between calls they may change arbitrarily.
  \<^item> An uninitialised local array starts with the bytes \<open>stack_bytes\<close>, an uninitialised
    local pointer holds the address \<open>stack_ptr\<close>; both are arbitrary.
  \<^item> Objects of type \<open>struct sun4i_power_module\<close> live in \<open>heap\<close>, addressed by
    numbers; a store through an address that holds no such object returns \<open>None\<close>.
  \<^item> Every call of \<open>sysfs_write\<close> and every system call on the boost-pulse descriptor is
    appended to \<open>trace\<close>. Log output (ALOGE) and the mutex are not modelled: the model is
    sequential.
\<close>

subsection \<open>Constants of the source\<close>

abbreviation NUL :: char where "NUL \<equiv> CHR 0x00"
abbreviation LF :: char where "LF \<equiv> CHR 0x0A"
abbreviation CR :: char where "CR \<equiv> CHR 0x0D"

definition SCALINGMAXFREQ :: string where
  "SCALINGMAXFREQ = ''/sys/devices/system/cpu/cpu0/cpufreq/scaling_max_freq''"

definition SCALING_GOVERNOR :: string where
  "SCALING_GOVERNOR = ''/sys/devices/system/cpu/cpu0/cpufreq/scaling_governor''"

definition BOOSTPULSE_INTERACTIVE :: string where
  "BOOSTPULSE_INTERACTIVE = ''/sys/devices/system/cpu/cpufreq/interactive/boostpulse''"

definition BOOSTPULSE_ONDEMAND :: string where
  "BOOSTPULSE_ONDEMAND = ''/sys/devices/system/cpu/cpufreq/ondemand/boostpulse''"

definition BOOSTPULSE_MALI :: string where
  "BOOSTPULSE_MALI = ''/sys/devices/platform/mali_dev.0/boostpulse''"

definition MAX_BUF_SZ :: nat where
  "MAX_BUF_SZ = 20"

text \<open>A string literal of the source is its characters followed by the terminator.\<close>

definition lit :: "string \<Rightarrow> char list" where
  "lit s = s @ [NUL]"

text \<open>\<open>static char screen_off_max_freq[MAX_BUF_SZ] = "696000"\<close>: never assigned.\<close>

definition screen_off_max_freq :: "char list" where
  "screen_off_max_freq = ''696000'' @ replicate 14 NUL"

subsection \<open>Data\<close>

record sun4i_power_module =
  boostpulse_fd :: int
  boostpulse_warned :: int

datatype power_hint_t =
  POWER_HINT_VSYNC | POWER_HINT_INTERACTION | POWER_HINT_CPU_BOOST | POWER_HINT_OTHER

text \<open>What \<open>open(path, O_RDONLY)\<close> followed by \<open>read\<close> yields; the \<open>int\<close> is errno.\<close>

datatype rd_outcome = Rd_open_fails int | Rd_read_fails int | Rd_content string

text \<open>How one call of \<open>sysfs_write\<close> ended.\<close>

datatype wr_outcome = Cant_open int | Cant_write int | Wrote nat

datatype event =
    Sysfs_write string string wr_outcome
  | Open_wr string int
  | Fd_write int string "int + nat"
  | Fd_close int

record world =
  rd_attr :: "string \<Rightarrow> rd_outcome"
  open_wr :: "string \<Rightarrow> int + nat"
  wr_fd :: "int \<Rightarrow> string \<Rightarrow> int + nat"
  strerror :: "int \<Rightarrow> string"
  stack_bytes :: "nat \<Rightarrow> char"
  stack_ptr :: nat
  heap :: "nat \<Rightarrow> sun4i_power_module option"
  scaling_max_freq :: "char list"
  current_governor :: "char list"
  trace :: "event list"

definition emit :: "world \<Rightarrow> event \<Rightarrow> world" where
  "emit w e = w\<lparr>trace := trace w @ [e]\<rparr>"

definition stack_buf :: "world \<Rightarrow> nat \<Rightarrow> char list" where
  "stack_buf w n = map (stack_bytes w) [0..<n]"

text \<open>
  The module object as the source initialises it (\<open>boostpulse_fd: -1, boostpulse_warned: 0\<close>)
  and the initial contents of the two mutable static arrays.
\<close>

definition HAL_MODULE_INFO_SYM :: sun4i_power_module where
  "HAL_MODULE_INFO_SYM = \<lparr>boostpulse_fd = - 1, boostpulse_warned = 0\<rparr>"

definition scaling_max_freq_init :: "char list" where
  "scaling_max_freq_init = ''1008000'' @ replicate 13 NUL"

definition current_governor_init :: "char list" where
  "current_governor_init = replicate 20 NUL"

text \<open>The arrays have their declared size and the restore frequency is terminated.\<close>

definition wf_world :: "world \<Rightarrow> bool" where
  "wf_world w \<longleftrightarrow>
     length (scaling_max_freq w) = MAX_BUF_SZ \<and> NUL \<in> set (scaling_max_freq w) \<and>
     length (current_governor w) = MAX_BUF_SZ"

subsection \<open>The C library on arrays\<close>

text \<open>The string a terminated array holds.\<close>

definition cstr :: "char list \<Rightarrow> string" where
  "cstr s = takeWhile (\<lambda>c. c \<noteq> NUL) s"

fun strlen :: "char list \<Rightarrow> nat option" where
  "strlen [] = None"
| "strlen (c # cs) = (if c = NUL then Some 0 else map_option Suc (strlen cs))"

text \<open>
  \<open>strncmp(a, b, n)\<close>: at most \<open>n\<close> characters, stopping after a terminator; the value
  is the difference of the first differing characters.
\<close>

fun strncmp :: "char list \<Rightarrow> char list \<Rightarrow> nat \<Rightarrow> int option" where
  "strncmp a b 0 = Some 0"
| "strncmp [] b (Suc n) = None"
| "strncmp (x # a) [] (Suc n) = None"
| "strncmp (x # a) (y # b) (Suc n) =
     (if x \<noteq> y then Some (of_char x - of_char y)
      else if x = NUL then Some 0
      else strncmp a b n)"

definition memcpy :: "char list \<Rightarrow> char list \<Rightarrow> nat \<Rightarrow> char list option" where
  "memcpy dst src n =
     (if n \<le> length src \<and> n \<le> length dst then Some (take n src @ drop n dst) else None)"

text \<open>\<open>s[i] = c\<close>\<close>

definition poke :: "char list \<Rightarrow> nat \<Rightarrow> char \<Rightarrow> char list option" where
  "poke s i c = (if i < length s then Some (s[i := c]) else None)"

text \<open>An \<open>int\<close> converted to the 32-bit \<open>size_t\<close> of the platform.\<close>

definition size_t :: "int \<Rightarrow> nat" where
  "size_t i = nat (i mod 2 ^ 32)"

text \<open>
  \<open>read(fd, s, n)\<close> on a file holding \<open>data\<close>: the kernel stores
  \<open>min (length data) n\<close> bytes at the start of \<open>s\<close> and returns their number.
\<close>

definition read_into :: "char list \<Rightarrow> string \<Rightarrow> nat \<Rightarrow> (nat \<times> char list) option" where
  "read_into s data n =
     (let count = min (length data) n
      in if count \<le> length s then Some (count, take count data @ drop count s) else None)"

text \<open>
  Storing a text and its terminator at the start of \<open>buf\<close>, cut to \<open>size - 1\<close> characters:
  what \<open>snprintf(buf, size, "%d", d)\<close> and \<open>strerror_r(e, buf, size)\<close> both do with
  their text.
\<close>

definition store_text :: "char list \<Rightarrow> nat \<Rightarrow> string \<Rightarrow> char list option" where
  "store_text buf sz text =
     (let t = take (sz - 1) text
      in if sz = 0 then Some buf
         else if length t < length buf then Some (t @ NUL # drop (Suc (length t)) buf)
         else None)"

fun digits :: "nat \<Rightarrow> string" where
  "digits n = (if n < 10 then [''0123456789'' ! n] else digits (n div 10) @ [''0123456789'' ! (n mod 10)])"

declare digits.simps [simp del]

text \<open>The conversion \<open>%d\<close>.\<close>

definition show_int :: "int \<Rightarrow> string" where
  "show_int i = (if i < 0 then CHR ''-'' # digits (nat (- i)) else digits (nat i))"

definition snprintf_d :: "char list \<Rightarrow> nat \<Rightarrow> int \<Rightarrow> char list option" where
  "snprintf_d buf sz d = store_text buf sz (show_int d)"

definition strerror_r :: "world \<Rightarrow> int \<Rightarrow> char list \<Rightarrow> nat \<Rightarrow> char list option" where
  "strerror_r w e buf sz = store_text buf sz (strerror w e)"

subsection \<open>Stores through a module pointer\<close>

definition store_warned :: "world \<Rightarrow> nat \<Rightarrow> int \<Rightarrow> world option" where
  "store_warned w p v =
     (case heap w p of
        None \<Rightarrow> None
      | Some m \<Rightarrow> Some (w\<lparr>heap := (heap w)(p \<mapsto> m\<lparr>boostpulse_warned := v\<rparr>)\<rparr>))"

definition store_fd :: "world \<Rightarrow> nat \<Rightarrow> int \<Rightarrow> world option" where
  "store_fd w p v =
     (case heap w p of
        None \<Rightarrow> None
      | Some m \<Rightarrow> Some (w\<lparr>heap := (heap w)(p \<mapsto> m\<lparr>boostpulse_fd := v\<rparr>)\<rparr>))"

subsection \<open>sysfs\_read, sysfs\_write, get\_scaling\_governor\<close>

definition sysfs_read :: "world \<Rightarrow> string \<Rightarrow> char list \<Rightarrow> int \<Rightarrow> (int \<times> char list) option" where
  "sysfs_read w path s num_bytes =
     (case rd_attr w path of
        Rd_open_fails e \<Rightarrow> Some (- 1, s)
      | Rd_read_fails e \<Rightarrow> Some (- 1, s)
      | Rd_content data \<Rightarrow>
          do {
            (count, s) \<leftarrow> read_into s data (size_t (num_bytes - 1));
            s \<leftarrow> poke s count NUL;
            Some (0, s)
          })"

text \<open>
  \<open>sysfs_write\<close> changes nothing in the program; the model records the call, the text
  handed over and how the call ended. The length is taken only after the open succeeded.
\<close>

definition sysfs_write :: "world \<Rightarrow> string \<Rightarrow> char list \<Rightarrow> world option" where
  "sysfs_write w path s =
     (case open_wr w path of
        Inl e \<Rightarrow> Some (emit w (Sysfs_write path (cstr s) (Cant_open e)))
      | Inr fd \<Rightarrow>
          do {
            n \<leftarrow> strlen s;
            Some (emit w (Sysfs_write path (take n s)
                    (case wr_fd w (int fd) (take n s) of
                       Inl e \<Rightarrow> Cant_write e
                     | Inr len \<Rightarrow> Wrote len)))
          })"

text \<open>The loop \<open>while (len >= 0 && (governor[len] == '\n' || governor[len] == '\r')) governor[len--] = '\0'\<close>.\<close>

function strip_eol :: "char list \<Rightarrow> int \<Rightarrow> char list option" where
  "strip_eol governor len =
     (if len \<ge> 0 then
        (if nat len < length governor then
           (if governor ! nat len = LF \<or> governor ! nat len = CR
            then strip_eol (governor[nat len := NUL]) (len - 1)
            else Some governor)
         else None)
      else Some governor)"
  by pat_completeness auto
termination
  by (relation "measure (\<lambda>(g, len). nat (len + 1))") auto

declare strip_eol.simps [simp del]

definition get_scaling_governor :: "world \<Rightarrow> char list \<Rightarrow> int \<Rightarrow> (int \<times> char list) option" where
  "get_scaling_governor w governor sz =
     do {
       (r, governor) \<leftarrow> sysfs_read w SCALING_GOVERNOR governor sz;
       if r = - 1 then Some (- 1, governor)
       else do {
         n \<leftarrow> strlen governor;
         governor \<leftarrow> strip_eol governor (int n - 1);
         Some (0, governor)
       }
     }"

subsection \<open>sun4i\_power\_init\<close>

text \<open>
  The local \<open>sun4i\<close> is declared and never assigned, so the store
  \<open>sun4i->boostpulse_warned = 1\<close> goes through \<open>stack_ptr\<close>; the argument
  \<open>module\<close> is not used.
\<close>

definition sun4i_power_init :: "world \<Rightarrow> nat \<Rightarrow> world option" where
  "sun4i_power_init w module =
     (let sun4i = stack_ptr w; governor = stack_buf w 80 in
      do {
        (r, governor) \<leftarrow> get_scaling_governor w governor 80;
        if r < 0 then store_warned w sun4i 1
        else do {
          cg \<leftarrow> memcpy (current_governor w) governor MAX_BUF_SZ;
          let w = w\<lparr>current_governor := cg\<rparr>;
          c \<leftarrow> strncmp governor (lit ''interactive'') 80;
          w \<leftarrow> (if c = 0 then do {
                  w \<leftarrow> sysfs_write w ''/sys/devices/system/cpu/cpufreq/interactive/timer_rate''
                        (lit ''20000'');
                  w \<leftarrow> sysfs_write w ''/sys/devices/system/cpu/cpufreq/interactive/min_sample_time''
                        (lit ''60000'');
                  w \<leftarrow> sysfs_write w ''/sys/devices/system/cpu/cpufreq/interactive/hispeed_freq''
                        (lit ''696000'');
                  w \<leftarrow> sysfs_write w ''/sys/devices/system/cpu/cpufreq/interactive/go_hispeed_load''
                        (lit ''50'');
                  sysfs_write w ''/sys/devices/system/cpu/cpufreq/interactive/above_hispeed_delay''
                        (lit ''100000'')
                }
                else do {
                  c \<leftarrow> strncmp governor (lit ''ondemand'') 80;
                  if c = 0 then do {
                    w \<leftarrow> sysfs_write w ''/sys/devices/system/cpu/cpufreq/ondemand/boostfreq''
                          (lit ''696000'');
                    w \<leftarrow> sysfs_write w ''/sys/devices/system/cpu/cpufreq/ondemand/up_threshold''
                          (lit ''70'');
                    sysfs_write w ''/sys/devices/system/cpu/cpufreq/ondemand/sampling_rate''
                          (lit ''50000'')
                  }
                  else Some w
                });
          w \<leftarrow> sysfs_write w ''/sys/module/mali/parameters/mali_boost_rate'' (lit ''1200'');
          sysfs_write w ''/sys/module/mali/parameters/mali_boost_duration'' (lit ''500'')
        }
      })"

subsection \<open>boostpulse\_open\<close>

text \<open>\<open>open(path, O_WRONLY)\<close> assigned to \<open>sun4i->boostpulse_fd\<close>.\<close>

definition open_boostpulse :: "world \<Rightarrow> nat \<Rightarrow> string \<Rightarrow> world option" where
  "open_boostpulse w sun4i path =
     (let fd = (case open_wr w path of Inl e \<Rightarrow> - 1 | Inr n \<Rightarrow> int n)
      in store_fd (emit w (Open_wr path fd)) sun4i fd)"

text \<open>
  The local \<open>module\<close> handed to \<open>sun4i_power_init\<close> is uninitialised as well. The result
  is the value of \<open>sun4i->boostpulse_fd\<close> and the new world.
\<close>

definition boostpulse_open :: "world \<Rightarrow> nat \<Rightarrow> (int \<times> world) option" where
  "boostpulse_open w sun4i =
     (let module = stack_ptr w; governor = stack_buf w 80 in
      do {
        m \<leftarrow> heap w sun4i;
        w \<leftarrow> (if boostpulse_fd m < 0 then do {
                (r, governor) \<leftarrow> get_scaling_governor w governor 80;
                if r < 0 then store_warned w sun4i 1
                else do {
                  n \<leftarrow> strlen governor;
                  c \<leftarrow> strncmp governor (current_governor w) n;
                  w \<leftarrow> (if c \<noteq> 0 then sun4i_power_init w module else Some w);
                  c \<leftarrow> strncmp governor (lit ''interactive'') 80;
                  w \<leftarrow> (if c = 0 then open_boostpulse w sun4i BOOSTPULSE_INTERACTIVE
                        else do {
                          c \<leftarrow> strncmp governor (lit ''ondemand'') 80;
                          if c = 0 then open_boostpulse w sun4i BOOSTPULSE_ONDEMAND
                          else Some w
                        });
                  m \<leftarrow> heap w sun4i;
                  if boostpulse_fd m < 0 \<and> boostpulse_warned m = 0
                  then store_warned w sun4i 1
                  else Some w
                }
              }
              else Some w);
        m \<leftarrow> heap w sun4i;
        Some (boostpulse_fd m, w)
      })"

subsection \<open>sun4i\_power\_set\_interactive\<close>

definition sun4i_power_set_interactive :: "world \<Rightarrow> nat \<Rightarrow> int \<Rightarrow> world option" where
  "sun4i_power_set_interactive w module on =
     (let buf = stack_buf w MAX_BUF_SZ in
      if on = 0 then do {
        (len, buf) \<leftarrow> sysfs_read w SCALINGMAXFREQ buf (int MAX_BUF_SZ);
        w \<leftarrow> (if len \<noteq> - 1 then do {
                n \<leftarrow> strlen screen_off_max_freq;
                c \<leftarrow> strncmp buf screen_off_max_freq n;
                if c \<noteq> 0 then do {
                  smf \<leftarrow> memcpy (scaling_max_freq w) buf MAX_BUF_SZ;
                  Some (w\<lparr>scaling_max_freq := smf\<rparr>)
                }
                else Some w
              }
              else Some w);
        sysfs_write w SCALINGMAXFREQ screen_off_max_freq
      }
      else sysfs_write w SCALINGMAXFREQ (scaling_max_freq w))"

subsection \<open>sun4i\_power\_hint\<close>

text \<open>
  \<open>data\<close> is the 32-bit pointer argument; \<open>(int) data\<close> reads it as a signed number.
  After a failed write \<open>strerror_r\<close> stores the message in the same \<open>buf\<close> that is then
  handed to \<open>sysfs_write\<close>.
\<close>

definition sun4i_power_hint :: "world \<Rightarrow> nat \<Rightarrow> power_hint_t \<Rightarrow> 32 word \<Rightarrow> world option" where
  "sun4i_power_hint w module hint data =
     (let sun4i = module; buf = stack_buf w 80 in
      if hint = POWER_HINT_INTERACTION \<or> hint = POWER_HINT_CPU_BOOST then do {
        (fd, w) \<leftarrow> boostpulse_open w sun4i;
        if fd \<ge> 0 then do {
          let duration = (if data \<noteq> 0 then sint data else 1);
          buf \<leftarrow> snprintf_d buf 80 duration;
          m \<leftarrow> heap w sun4i;
          n \<leftarrow> strlen buf;
          let len = wr_fd w (boostpulse_fd m) (take n buf);
          let w = emit w (Fd_write (boostpulse_fd m) (take n buf) len);
          (buf, w) \<leftarrow> (case len of
                         Inr k \<Rightarrow> Some (buf, w)
                       | Inl e \<Rightarrow> do {
                           buf \<leftarrow> strerror_r w e buf 80;
                           m \<leftarrow> heap w sun4i;
                           let w = emit w (Fd_close (boostpulse_fd m));
                           w \<leftarrow> store_fd w sun4i (- 1);
                           w \<leftarrow> store_warned w sun4i 0;
                           Some (buf, w)
                         });
          sysfs_write w BOOSTPULSE_MALI buf
        }
        else Some w
      }
      else Some w)"

subsection \<open>Reference notions and sample worlds\<close>

text \<open>A text without the line ends at its end; used to describe what \<open>strip_eol\<close> leaves.\<close>

definition trim_eol :: "string \<Rightarrow> string" where
  "trim_eol t = rev (dropWhile (\<lambda>c. c = LF \<or> c = CR) (rev t))"

text \<open>How a call \<open>sysfs_write(path, text)\<close> ends in a world: the outcome the event carries.\<close>

definition wr_result :: "world \<Rightarrow> string \<Rightarrow> string \<Rightarrow> wr_outcome" where
  "wr_result w path text =
     (case open_wr w path of
        Inl e \<Rightarrow> Cant_open e
      | Inr fd \<Rightarrow> (case wr_fd w (int fd) text of Inl e \<Rightarrow> Cant_write e | Inr len \<Rightarrow> Wrote len))"

text \<open>
  A world right after loading: the module object at address 1, the static arrays as
  initialised, an empty trace, an open for writing giving descriptor 5 for the two
  boost-pulse files and 6 for every other file, and an uninitialised pointer (7) that
  addresses no module object.
\<close>

definition sysfs_of :: "string \<Rightarrow> string \<Rightarrow> string \<Rightarrow> rd_outcome" where
  "sysfs_of gov freq p =
     (if p = SCALING_GOVERNOR then Rd_content gov
      else if p = SCALINGMAXFREQ then Rd_content freq
      else Rd_open_fails 2)"



text \<open>A sysfs in which no attribute can be opened for reading (ENOENT).\<close>

definition sysfs_unreadable :: "string \<Rightarrow> rd_outcome" where
  "sysfs_unreadable p = Rd_open_fails 2"

text \<open>A \<open>write\<close> that always takes all bytes.\<close>

definition wr_ok :: "int \<Rightarrow> string \<Rightarrow> int + nat" where
  "wr_ok fd t = Inr (length t)"

text \<open>Switching the screen off and on again.\<close>

definition screen_off_then_on :: "world \<Rightarrow> nat \<Rightarrow> world option" where
  "screen_off_then_on w module =
     do {
       w \<leftarrow> sun4i_power_set_interactive w module 0;
       sun4i_power_set_interactive w module 1
     }"

definition boot_world :: "(string \<Rightarrow> rd_outcome) \<Rightarrow> (int \<Rightarrow> string \<Rightarrow> int + nat) \<Rightarrow> world" where
  "boot_world rd wr =
     \<lparr>rd_attr = rd,
      open_wr = (\<lambda>p. if p = BOOSTPULSE_INTERACTIVE \<or> p = BOOSTPULSE_ONDEMAND then Inr 5 else Inr 6),
      wr_fd = wr,
      strerror = (\<lambda>e. if e = 22 then ''Invalid argument'' else ''Unknown error''),
      stack_bytes = (\<lambda>i. CHR ''?''), stack_ptr = 7,
      heap = [1 \<mapsto> HAL_MODULE_INFO_SYM],
      scaling_max_freq = scaling_max_freq_init,
      current_governor = current_governor_init,
      trace = []\<rparr>"

text \<open>The same world later on: the boost-pulse handle is open on descriptor 5.\<close>

definition boosting_world :: "(string \<Rightarrow> rd_outcome) \<Rightarrow> (int \<Rightarrow> string \<Rightarrow> int + nat) \<Rightarrow> world" where
  "boosting_world rd wr =
     (boot_world rd wr)\<lparr>heap := [1 \<mapsto> \<lparr>boostpulse_fd = 5, boostpulse_warned = 0\<rparr>]\<rparr>"

text \<open>A world in which the uninitialised pointer happens to address a second module object.\<close>

definition aliased_world :: "(string \<Rightarrow> rd_outcome) \<Rightarrow> (int \<Rightarrow> string \<Rightarrow> int + nat) \<Rightarrow> world" where
  "aliased_world rd wr =
     (boot_world rd wr)\<lparr>heap := [1 \<mapsto> HAL_MODULE_INFO_SYM, 7 \<mapsto> HAL_MODULE_INFO_SYM]\<rparr>"

text \<open>The module object a world holds at an address.\<close>

definition module_at :: "nat \<Rightarrow> world \<Rightarrow> sun4i_power_module option" where
  "module_at a w = heap w a"

text \<open>Writes on the boost-pulse descriptor fail with EINVAL, all others succeed.\<close>

definition wr_boost_fails :: "int \<Rightarrow> string \<Rightarrow> int + nat" where
  "wr_boost_fails fd t = (if fd = 5 then Inl 22 else Inr (length t))"

section \<open>Properties\<close>

subsection \<open>Strings in arrays\<close>

lemma strlen_Some_cstr:
  "strlen s = Some n \<Longrightarrow> n = length (cstr s) \<and> take n s = cstr s \<and> n < length s \<and> s ! n = NUL"
  by (induction s arbitrary: n) (auto simp: cstr_def split: if_splits)

lemma strlen_terminated: "NUL \<in> set s \<Longrightarrow> strlen s = Some (length (cstr s))"
  by (induction s) (auto simp: cstr_def)

lemma strlen_Some_terminated: "strlen s = Some n \<Longrightarrow> NUL \<in> set s"
  by (induction s arbitrary: n) (auto split: if_splits)

lemma cstr_append_NUL: "NUL \<notin> set t \<Longrightarrow> cstr (t @ NUL # r) = t"
  by (induction t) (auto simp: cstr_def)

lemma strlen_lit: "NUL \<notin> set t \<Longrightarrow> strlen (lit t) = Some (length t)"
  by (induction t) (auto simp: lit_def)

lemma of_char_zero_iff: "(of_char x = (0::int)) \<longleftrightarrow> x = NUL"
proof -
  have "of_char NUL = (0::int)" by simp
  then show ?thesis using of_char_eq_iff [of x NUL, where ?'a = int] by simp
qed

lemma strncmp_lit:
  "NUL \<in> set a \<Longrightarrow> NUL \<notin> set s \<Longrightarrow> length s < n \<Longrightarrow>
   \<exists>r. strncmp a (lit s) n = Some r \<and> (r = 0 \<longleftrightarrow> cstr a = s)"
proof (induction a arbitrary: s n)
  case Nil
  then show ?case by simp
next
  case (Cons x a)
  from Cons.prems obtain k where n: "n = Suc k" by (cases n) auto
  show ?case
  proof (cases s)
    case Nil
    then show ?thesis using n by (auto simp: lit_def cstr_def of_char_zero_iff)
  next
    case (Cons y s')
    show ?thesis
    proof (cases "x = y")
      case True
      with Cons Cons.prems n have "NUL \<in> set a" "NUL \<notin> set s'" "length s' < k" "x \<noteq> NUL" by auto
      from Cons.IH[OF this(1-3)] this(4) True Cons n show ?thesis
        by (auto simp: lit_def cstr_def)
    next
      case False
      then show ?thesis using Cons n by (auto simp: lit_def cstr_def)
    qed
  qed
qed


subsection \<open>Reading attributes\<close>

lemma size_t_le: "0 \<le> i \<Longrightarrow> size_t i \<le> nat i"
  unfolding size_t_def by (simp add: zmod_le_nonneg_dividend nat_mono)

lemma poke_read:
  "count \<le> length d \<Longrightarrow> count < length s \<Longrightarrow>
   (take count d @ drop count s)[count := NUL] = take count d @ NUL # drop (Suc count) s"
  by (simp add: list_update_append Cons_nth_drop_Suc [symmetric])

lemma sysfs_read_fails:
  "(\<And>d. rd_attr w path \<noteq> Rd_content d) \<Longrightarrow> sysfs_read w path s n = Some (- 1, s)"
  by (cases "rd_attr w path") (auto simp: sysfs_read_def)

lemma sysfs_read_content:
  assumes "rd_attr w path = Rd_content d" "1 \<le> n" "length s = nat n"
  shows "sysfs_read w path s n =
           Some (0, take (size_t (n - 1)) d @ NUL # drop (Suc (min (length d) (size_t (n - 1)))) s)"
proof -
  let ?c = "min (length d) (size_t (n - 1))"
  have "size_t (n - 1) \<le> nat (n - 1)" using assms(2) by (intro size_t_le) simp
  then have c: "?c < length s" using assms(2,3) by linarith
  have c': "?c \<le> length d" by simp
  have "take ?c d = take (size_t (n - 1)) d" by (simp add: min_def)
  with poke_read [OF c' c] c show ?thesis
    using assms(1) by (simp add: sysfs_read_def read_into_def poke_def Let_def)
qed

lemma strip_eol_length:
  "len < int (length g) \<Longrightarrow> \<exists>g'. strip_eol g len = Some g' \<and> length g' = length g"
proof (induction g len rule: strip_eol.induct)
  case (1 governor len)
  show ?case
  proof (cases "len \<ge> 0 \<and> (governor ! nat len = LF \<or> governor ! nat len = CR)")
    case True
    with 1 show ?thesis by (subst strip_eol.simps) auto
  next
    case False
    with 1 show ?thesis by (subst strip_eol.simps) auto
  qed
qed

lemma strip_eol_append:
  "strip_eol (t @ z) (int (length t) - 1) =
     Some (trim_eol t @ replicate (length t - length (trim_eol t)) NUL @ z)"
proof (induction t arbitrary: z rule: rev_induct)
  case Nil
  show ?case by (subst strip_eol.simps) (simp add: trim_eol_def)
next
  case (snoc c t)
  show ?case
  proof (cases "c = LF \<or> c = CR")
    case True
    then have s: "trim_eol (t @ [c]) = trim_eol t" by (auto simp: trim_eol_def)
    have l: "length (trim_eol t) \<le> length t" by (simp add: trim_eol_def length_dropWhile_le [of _ "rev t", simplified])
    have "strip_eol ((t @ [c]) @ z) (int (length (t @ [c])) - 1) = strip_eol (t @ NUL # z) (int (length t) - 1)"
      using True by (subst strip_eol.simps) (auto simp: nth_append list_update_append)
    also have "\<dots> = Some (trim_eol t @ replicate (length t - length (trim_eol t)) NUL @ NUL # z)"
      by (rule snoc.IH)
    finally show ?thesis using l by (simp add: s Suc_diff_le replicate_app_Cons_same)
  next
    case False
    then have s: "trim_eol (t @ [c]) = t @ [c]" by (auto simp: trim_eol_def)
    show ?thesis using False by (subst strip_eol.simps) (auto simp: s nth_append)
  qed
qed

lemma size_t_small: "0 \<le> i \<Longrightarrow> i < 2 ^ 32 \<Longrightarrow> size_t i = nat i"
  by (simp add: size_t_def)

lemma strlen_split: "strlen s = Some n \<Longrightarrow> s = cstr s @ NUL # drop (Suc n) s \<and> n = length (cstr s)"
  using strlen_Some_cstr [of s n] id_take_nth_drop [of n s] by auto

lemma cstr_no_NUL: "NUL \<notin> set (cstr s)"
  unfolding cstr_def by (induction s) auto

lemma cstr_padding: "cstr (replicate k NUL @ NUL # r) = []"
  by (cases k) (simp_all add: cstr_def)

lemma cstr_padded: "NUL \<notin> set t \<Longrightarrow> cstr (t @ replicate k NUL @ NUL # r) = t"
  using cstr_padding [of k r] by (induction t) (auto simp: cstr_def)

lemma trim_eol_subset: "set (trim_eol t) \<subseteq> set t"
  unfolding trim_eol_def using set_dropWhileD [of _ _ "rev t"] by auto

lemma trim_eol_length: "length (trim_eol t) \<le> length t"
  by (simp add: trim_eol_def length_dropWhile_le [of _ "rev t", simplified])

lemma trim_eol_append:
  "set eols \<subseteq> {LF, CR} \<Longrightarrow> name = [] \<or> last name \<notin> {LF, CR} \<Longrightarrow> trim_eol (name @ eols) = name"
proof -
  assume e: "set eols \<subseteq> {LF, CR}" and n: "name = [] \<or> last name \<notin> {LF, CR}"
  have "dropWhile (\<lambda>c. c = LF \<or> c = CR) (rev eols @ rev name) = dropWhile (\<lambda>c. c = LF \<or> c = CR) (rev name)"
    using e by (intro dropWhile_append2) auto
  also have "\<dots> = rev name"
    using n by (cases name rule: rev_cases) auto
  finally show ?thesis by (simp add: trim_eol_def)
qed

text \<open>What a successful governor read leaves in the array.\<close>

lemma get_scaling_governor_strlen:
  assumes "sysfs_read w SCALING_GOVERNOR buf sz = Some (0, g0)" "strlen g0 = Some n"
  shows "get_scaling_governor w buf sz =
           Some (0, trim_eol (cstr g0) @ replicate (n - length (trim_eol (cstr g0))) NUL @ NUL # drop (Suc n) g0)"
proof -
  from strlen_split [OF assms(2)] have g0: "g0 = cstr g0 @ NUL # drop (Suc n) g0" and n: "n = length (cstr g0)"
    by auto
  have "strip_eol g0 (int n - 1) = strip_eol (cstr g0 @ NUL # drop (Suc n) g0) (int (length (cstr g0)) - 1)"
    using g0 n by simp
  also have "\<dots> = Some (trim_eol (cstr g0) @ replicate (n - length (trim_eol (cstr g0))) NUL @ NUL # drop (Suc n) g0)"
    unfolding strip_eol_append n ..
  finally show ?thesis using assms by (simp add: get_scaling_governor_def)
qed

lemma sysfs_read_result:
  assumes "sysfs_read w path s n = Some (r, s')"
  shows "length s' = length s \<and> (r = 0 \<or> r = - 1) \<and> (r = 0 \<longrightarrow> NUL \<in> set s') \<and> (r = - 1 \<longrightarrow> s' = s)"
proof (cases "rd_attr w path")
  case (Rd_content d)
  with assms show ?thesis
    by (auto simp: sysfs_read_def read_into_def poke_def Let_def set_update_memI split: if_splits)
qed (use assms in \<open>auto simp: sysfs_read_def\<close>)

lemma get_scaling_governor_result:
  assumes "get_scaling_governor w buf sz = Some (r, g)"
  shows "length g = length buf \<and> (r = 0 \<or> r = - 1) \<and> (r = 0 \<longrightarrow> NUL \<in> set g \<and> NUL \<notin> set (cstr g))"
proof -
  from assms obtain r0 g0 where s: "sysfs_read w SCALING_GOVERNOR buf sz = Some (r0, g0)"
    by (auto simp: get_scaling_governor_def split: Option.bind_splits)
  note sr = sysfs_read_result [OF s]
  show ?thesis
  proof (cases "r0 = - 1")
    case True
    with assms s sr show ?thesis by (simp add: get_scaling_governor_def)
  next
    case False
    with sr have r0: "r0 = 0" by simp
    with sr have "NUL \<in> set g0" by simp
    from strlen_terminated [OF this] obtain n where n: "strlen g0 = Some n" by simp
    from strlen_Some_cstr [OF n] have g0: "n < length g0" and n': "n = length (cstr g0)"
      by auto
    from get_scaling_governor_strlen [OF s [unfolded r0] n] assms
    have g: "r = 0" "g = trim_eol (cstr g0) @ replicate (n - length (trim_eol (cstr g0))) NUL @ NUL # drop (Suc n) g0"
      by auto
    have "length g = length g0"
      unfolding g(2) using trim_eol_length [of "cstr g0"] n' g0 by simp
    moreover have "NUL \<in> set g" unfolding g(2) by simp
    ultimately show ?thesis using g(1) sr cstr_no_NUL by simp
  qed
qed

lemma get_scaling_governor_total:
  assumes "1 \<le> sz" "length buf = nat sz"
  shows "\<exists>r g. get_scaling_governor w buf sz = Some (r, g)"
proof (cases "rd_attr w SCALING_GOVERNOR")
  case (Rd_content d)
  from sysfs_read_content [OF this assms] obtain g0 where
    s: "sysfs_read w SCALING_GOVERNOR buf sz = Some (0, g0)" by blast
  from sysfs_read_result [OF s] have "NUL \<in> set g0" by simp
  from strlen_terminated [OF this] get_scaling_governor_strlen [OF s] show ?thesis by blast
next
  case (Rd_open_fails e)
  then show ?thesis by (simp add: get_scaling_governor_def sysfs_read_def)
next
  case (Rd_read_fails e)
  then show ?thesis by (simp add: get_scaling_governor_def sysfs_read_def)
qed

subsection \<open>The read helper stays inside its buffer\<close>

text \<open>
  Claim C9. Called with an array of \<open>num_bytes\<close> characters (at least one), \<open>sysfs_read\<close>
  makes no access outside the array: it returns a value (never the out-of-bounds outcome
  \<open>None\<close>) and an array of the same \<open>num_bytes\<close> characters. When it reports success (0),
  the array holds a terminator at some index below \<open>num_bytes\<close>. The same holds for
  \<open>get_scaling_governor\<close>, which therefore never overruns its caller's array.
\<close>

theorem sysfs_read_stays_in_buffer:
  assumes "1 \<le> num_bytes" "length s = nat num_bytes"
  shows "(\<exists>r s'. sysfs_read w path s num_bytes = Some (r, s') \<and> length s' = nat num_bytes \<and>
            (r = 0 \<or> r = - 1) \<and> (r = 0 \<longrightarrow> (\<exists>k < nat num_bytes. strlen s' = Some k))) \<and>
         (\<exists>r g. get_scaling_governor w s num_bytes = Some (r, g) \<and> length g = nat num_bytes)"
proof -
  have "\<exists>r s'. sysfs_read w path s num_bytes = Some (r, s')"
  proof (cases "rd_attr w path")
    case (Rd_content d)
    from sysfs_read_content [OF this assms] show ?thesis by blast
  qed (simp_all add: sysfs_read_def)
  then obtain r s' where s: "sysfs_read w path s num_bytes = Some (r, s')" by blast
  note sr = sysfs_read_result [OF s]
  have "r = 0 \<longrightarrow> (\<exists>k < nat num_bytes. strlen s' = Some k)"
  proof
    assume "r = 0"
    with sr have "NUL \<in> set s'" by simp
    from strlen_terminated [OF this] strlen_Some_cstr [of s'] sr assms(2)
    show "\<exists>k < nat num_bytes. strlen s' = Some k" by auto
  qed
  moreover from get_scaling_governor_total [OF assms] obtain r' g where
    g: "get_scaling_governor w s num_bytes = Some (r', g)" by blast
  moreover note get_scaling_governor_result [OF g]
  ultimately show ?thesis using s sr assms(2) g by auto
qed

theorem sysfs_read_stays_in_buffer_witness:
  "(1::int) \<le> 20 \<and>
   length (stack_buf (boot_world (sysfs_of ''interactive'' ''1008000'') wr_ok) 20) = nat 20 \<and>
   (\<exists>r s'. sysfs_read (boot_world (sysfs_of ''interactive'' ''1008000'') wr_ok)
              SCALINGMAXFREQ
              (stack_buf (boot_world (sysfs_of ''interactive'' ''1008000'') wr_ok) 20) 20
            = Some (r, s') \<and> length s' = nat 20 \<and> (r = 0 \<or> r = - 1) \<and>
            (r = 0 \<longrightarrow> (\<exists>k < nat 20. strlen s' = Some k))) \<and>
   (\<exists>r g. get_scaling_governor (boot_world (sysfs_of ''interactive'' ''1008000'') wr_ok)
              (stack_buf (boot_world (sysfs_of ''interactive'' ''1008000'') wr_ok) 20) 20
            = Some (r, g) \<and> length g = nat 20)"
  using sysfs_read_stays_in_buffer
          [of 20 "stack_buf (boot_world (sysfs_of ''interactive'' ''1008000'') wr_ok) 20"
              "boot_world (sysfs_of ''interactive'' ''1008000'') wr_ok" SCALINGMAXFREQ]
  by (simp add: stack_buf_def)

subsection \<open>Trimming the governor name\<close>

text \<open>
  Claim C7. Let the data read from the governor file (the first \<open>length buf - 1\<close> bytes of
  its content) be \<open>name @ eols\<close>, where \<open>eols\<close> consists of line feeds and carriage returns
  only, \<open>name\<close> does not end in one and holds no NUL. Then \<open>get_scaling_governor\<close> succeeds
  and leaves \<open>name\<close>, unaltered, as the string in the array: exactly the characters of
  \<open>eols\<close> have been overwritten by terminators.
\<close>

theorem get_scaling_governor_trims:
  assumes "rd_attr w SCALING_GOVERNOR = Rd_content d"
    and "0 < length buf" and "length buf < 2 ^ 32"
    and "take (length buf - 1) d = name @ eols"
    and "set eols \<subseteq> {LF, CR}"
    and "name = [] \<or> last name \<notin> {LF, CR}"
    and "NUL \<notin> set name"
  shows "\<exists>g. get_scaling_governor w buf (int (length buf)) = Some (0, g) \<and>
             g = name @ replicate (length eols) NUL @ NUL # drop (Suc (length (name @ eols))) buf \<and>
             cstr g = name"
proof -
  let ?n = "int (length buf)"
  let ?t = "name @ eols"
  have sz: "size_t (?n - 1) = length buf - 1"
    using assms(2,3) by (subst size_t_small) auto
  have len: "min (length d) (length buf - 1) = length ?t"
    using arg_cong [OF assms(4), of length] by simp
  have nul: "NUL \<notin> set ?t" using assms(5,7) by auto
  have "sysfs_read w SCALING_GOVERNOR buf ?n = Some (0, ?t @ NUL # drop (Suc (length ?t)) buf)"
    using sysfs_read_content [OF assms(1), of ?n buf] assms(2,4) by (simp only: sz len)
  moreover have c: "cstr (?t @ NUL # drop (Suc (length ?t)) buf) = ?t"
    by (rule cstr_append_NUL [OF nul])
  moreover have "strlen (?t @ NUL # drop (Suc (length ?t)) buf) = Some (length ?t)"
    using strlen_terminated [of "?t @ NUL # drop (Suc (length ?t)) buf"] by (simp only: c) simp
  ultimately have "get_scaling_governor w buf ?n =
      Some (0, trim_eol ?t @ replicate (length ?t - length (trim_eol ?t)) NUL @ NUL #
                 drop (Suc (length ?t)) (?t @ NUL # drop (Suc (length ?t)) buf))"
    using get_scaling_governor_strlen [of w buf ?n "?t @ NUL # drop (Suc (length ?t)) buf" "length ?t"]
    by (simp only: c)
  moreover have "trim_eol ?t = name" by (rule trim_eol_append [OF assms(5,6)])
  ultimately have "get_scaling_governor w buf ?n =
      Some (0, name @ replicate (length eols) NUL @ NUL # drop (Suc (length ?t)) buf)"
    by simp
  then show ?thesis using cstr_padded [OF assms(7)] by simp
qed

theorem get_scaling_governor_trims_witness:
  "rd_attr (boot_world (sysfs_of (''ondemand'' @ [CR, LF]) ''1008000'') wr_ok)
     SCALING_GOVERNOR = Rd_content (''ondemand'' @ [CR, LF]) \<and>
   0 < length (replicate 80 CHR ''?'') \<and> length (replicate 80 CHR ''?'') < (2::nat) ^ 32 \<and>
   take (length (replicate 80 CHR ''?'') - 1) (''ondemand'' @ [CR, LF]) = ''ondemand'' @ [CR, LF] \<and>
   set [CR, LF] \<subseteq> {LF, CR} \<and> (''ondemand'' = [] \<or> last ''ondemand'' \<notin> {LF, CR}) \<and>
   NUL \<notin> set ''ondemand'' \<and>
   (\<exists>g. get_scaling_governor (boot_world (sysfs_of (''ondemand'' @ [CR, LF]) ''1008000'') wr_ok)
          (replicate 80 CHR ''?'') (int (length (replicate 80 CHR ''?''))) = Some (0, g) \<and>
        g = ''ondemand'' @ replicate (length [CR, LF]) NUL @ NUL #
              drop (Suc (length (''ondemand'' @ [CR, LF]))) (replicate 80 CHR ''?'') \<and>
        cstr g = ''ondemand'')"
proof -
  let ?w = "boot_world (sysfs_of (''ondemand'' @ [CR, LF]) ''1008000'') wr_ok"
  have h1: "rd_attr ?w SCALING_GOVERNOR = Rd_content (''ondemand'' @ [CR, LF])"
    by (simp add: boot_world_def sysfs_of_def)
  have h2: "0 < length (replicate 80 CHR ''?'')" by simp
  have h3: "length (replicate 80 CHR ''?'') < (2::nat) ^ 32" by simp
  have h4: "take (length (replicate 80 CHR ''?'') - 1) (''ondemand'' @ [CR, LF]) = ''ondemand'' @ [CR, LF]"
    by simp
  have h5: "set [CR, LF] \<subseteq> {LF, CR}" by simp
  have h6: "''ondemand'' = [] \<or> last ''ondemand'' \<notin> {LF, CR}" by simp
  have h7: "NUL \<notin> set ''ondemand''" by simp
  from get_scaling_governor_trims [OF h1 h2 h3 h4 h5 h6 h7] h1 h2 h3 h4 h5 h6 h7
  show ?thesis by blast
qed

subsection \<open>Attribute writes\<close>

lemma wr_result_emit [simp]: "wr_result (emit w e) = wr_result w"
  by (simp add: fun_eq_iff wr_result_def emit_def split: sum.splits)

lemma wr_result_current_governor [simp]: "wr_result (w\<lparr>current_governor := cg\<rparr>) = wr_result w"
  by (simp add: fun_eq_iff wr_result_def split: sum.splits)

lemma wr_result_trace [simp]: "wr_result (w\<lparr>trace := t\<rparr>) = wr_result w"
  by (simp add: fun_eq_iff wr_result_def split: sum.splits)

lemma sysfs_write_terminated:
  assumes "NUL \<in> set s"
  shows "sysfs_write w path s = Some (emit w (Sysfs_write path (cstr s) (wr_result w path (cstr s))))"
proof -
  from strlen_terminated [OF assms] strlen_Some_cstr [of s]
  have "strlen s = Some (length (cstr s))" "take (length (cstr s)) s = cstr s" by auto
  then show ?thesis
    by (cases "open_wr w path") (simp_all add: sysfs_write_def wr_result_def)
qed

lemma sysfs_write_lit:
  "NUL \<notin> set t \<Longrightarrow> sysfs_write w path (lit t) = Some (emit w (Sysfs_write path t (wr_result w path t)))"
  using sysfs_write_terminated [of "lit t" w path] cstr_append_NUL [of t "[]"]
  by (simp add: lit_def)

lemma stack_buf_length [simp]: "length (stack_buf w n) = n"
  by (simp add: stack_buf_def)

subsection \<open>Initialisation\<close>

lemma governor_array:
  assumes "get_scaling_governor w (stack_buf w 80) 80 = Some (0, g)"
  shows "length g = 80" "NUL \<in> set g"
  using get_scaling_governor_result [OF assms] by simp_all

lemma sun4i_power_init_interactive:
  assumes "get_scaling_governor w (stack_buf w 80) 80 = Some (0, g)"
    and "cstr g = ''interactive''" and "length (current_governor w) = MAX_BUF_SZ"
  shows "sun4i_power_init w module =
    Some (w\<lparr>current_governor := take MAX_BUF_SZ g,
           trace := trace w @
     [Sysfs_write ''/sys/devices/system/cpu/cpufreq/interactive/timer_rate'' ''20000''
        (wr_result w ''/sys/devices/system/cpu/cpufreq/interactive/timer_rate'' ''20000''),
      Sysfs_write ''/sys/devices/system/cpu/cpufreq/interactive/min_sample_time'' ''60000''
        (wr_result w ''/sys/devices/system/cpu/cpufreq/interactive/min_sample_time'' ''60000''),
      Sysfs_write ''/sys/devices/system/cpu/cpufreq/interactive/hispeed_freq'' ''696000''
        (wr_result w ''/sys/devices/system/cpu/cpufreq/interactive/hispeed_freq'' ''696000''),
      Sysfs_write ''/sys/devices/system/cpu/cpufreq/interactive/go_hispeed_load'' ''50''
        (wr_result w ''/sys/devices/system/cpu/cpufreq/interactive/go_hispeed_load'' ''50''),
      Sysfs_write ''/sys/devices/system/cpu/cpufreq/interactive/above_hispeed_delay'' ''100000''
        (wr_result w ''/sys/devices/system/cpu/cpufreq/interactive/above_hispeed_delay'' ''100000''),
      Sysfs_write ''/sys/module/mali/parameters/mali_boost_rate'' ''1200''
        (wr_result w ''/sys/module/mali/parameters/mali_boost_rate'' ''1200''),
      Sysfs_write ''/sys/module/mali/parameters/mali_boost_duration'' ''500''
        (wr_result w ''/sys/module/mali/parameters/mali_boost_duration'' ''500'')]\<rparr>)"
proof -
  note g = governor_array [OF assms(1)]
  from strncmp_lit [OF g(2), of "''interactive''" 80] assms(2)
  have c: "strncmp g (lit ''interactive'') 80 = Some 0" by auto
  have m: "memcpy (current_governor w) g MAX_BUF_SZ = Some (take MAX_BUF_SZ g)"
    using g(1) assms(3) by (simp add: memcpy_def MAX_BUF_SZ_def)
  show ?thesis
    by (simp add: sun4i_power_init_def assms(1) c m sysfs_write_lit emit_def)
qed


lemma sun4i_power_init_other:
  assumes "get_scaling_governor w (stack_buf w 80) 80 = Some (0, g)"
    and "cstr g \<noteq> ''interactive''" and "cstr g \<noteq> ''ondemand''"
    and "length (current_governor w) = MAX_BUF_SZ"
  shows "sun4i_power_init w module =
    Some (w\<lparr>current_governor := take MAX_BUF_SZ g,
           trace := trace w @
     [Sysfs_write ''/sys/module/mali/parameters/mali_boost_rate'' ''1200''
        (wr_result w ''/sys/module/mali/parameters/mali_boost_rate'' ''1200''),
      Sysfs_write ''/sys/module/mali/parameters/mali_boost_duration'' ''500''
        (wr_result w ''/sys/module/mali/parameters/mali_boost_duration'' ''500'')]\<rparr>)"
proof -
  note g = governor_array [OF assms(1)]
  from strncmp_lit [OF g(2), of "''interactive''" 80] assms(2)
  obtain r where c: "strncmp g (lit ''interactive'') 80 = Some r" "r \<noteq> 0" by auto
  from strncmp_lit [OF g(2), of "''ondemand''" 80] assms(3)
  obtain r' where c': "strncmp g (lit ''ondemand'') 80 = Some r'" "r' \<noteq> 0" by auto
  have m: "memcpy (current_governor w) g MAX_BUF_SZ = Some (take MAX_BUF_SZ g)"
    using g(1) assms(4) by (simp add: memcpy_def MAX_BUF_SZ_def)
  show ?thesis
    by (simp add: sun4i_power_init_def assms(1) c c' m sysfs_write_lit emit_def)
qed

text \<open>
  Claim C6. When the governor reads as \<open>interactive\<close>, \<open>sun4i_power_init\<close> returns and the
  calls of \<open>sysfs_write\<close> it has made are exactly seven, in this order: the five
  interactive tuning attributes (timer\_rate 20000, min\_sample\_time 60000, hispeed\_freq
  696000, go\_hispeed\_load 50, above\_hispeed\_delay 100000) and the two Mali attributes
  (mali\_boost\_rate 1200, mali\_boost\_duration 500). No ondemand attribute is among them.
  Each call is best effort: its outcome \<open>wr_result\<close> is whatever the kernel answers.
\<close>

theorem init_interactive_writes:
  assumes "get_scaling_governor w (stack_buf w 80) 80 = Some (0, g)"
    and "cstr g = ''interactive''"
    and "length (current_governor w) = MAX_BUF_SZ"
  shows "\<exists>w'. sun4i_power_init w module = Some w' \<and>
    trace w' = trace w @
     [Sysfs_write ''/sys/devices/system/cpu/cpufreq/interactive/timer_rate'' ''20000''
        (wr_result w ''/sys/devices/system/cpu/cpufreq/interactive/timer_rate'' ''20000''),
      Sysfs_write ''/sys/devices/system/cpu/cpufreq/interactive/min_sample_time'' ''60000''
        (wr_result w ''/sys/devices/system/cpu/cpufreq/interactive/min_sample_time'' ''60000''),
      Sysfs_write ''/sys/devices/system/cpu/cpufreq/interactive/hispeed_freq'' ''696000''
        (wr_result w ''/sys/devices/system/cpu/cpufreq/interactive/hispeed_freq'' ''696000''),
      Sysfs_write ''/sys/devices/system/cpu/cpufreq/interactive/go_hispeed_load'' ''50''
        (wr_result w ''/sys/devices/system/cpu/cpufreq/interactive/go_hispeed_load'' ''50''),
      Sysfs_write ''/sys/devices/system/cpu/cpufreq/interactive/above_hispeed_delay'' ''100000''
        (wr_result w ''/sys/devices/system/cpu/cpufreq/interactive/above_hispeed_delay'' ''100000''),
      Sysfs_write ''/sys/module/mali/parameters/mali_boost_rate'' ''1200''
        (wr_result w ''/sys/module/mali/parameters/mali_boost_rate'' ''1200''),
      Sysfs_write ''/sys/module/mali/parameters/mali_boost_duration'' ''500''
        (wr_result w ''/sys/module/mali/parameters/mali_boost_duration'' ''500'')]"
  by (simp add: sun4i_power_init_interactive [OF assms])

theorem init_interactive_writes_witness:
  "\<exists>w'. sun4i_power_init
          (boot_world (sysfs_of (''interactive'' @ [LF]) (''1008000'' @ [LF])) wr_ok) 1
        = Some w' \<and>
    trace w' =
     [Sysfs_write ''/sys/devices/system/cpu/cpufreq/interactive/timer_rate'' ''20000'' (Wrote 5),
      Sysfs_write ''/sys/devices/system/cpu/cpufreq/interactive/min_sample_time'' ''60000'' (Wrote 5),
      Sysfs_write ''/sys/devices/system/cpu/cpufreq/interactive/hispeed_freq'' ''696000'' (Wrote 6),
      Sysfs_write ''/sys/devices/system/cpu/cpufreq/interactive/go_hispeed_load'' ''50'' (Wrote 2),
      Sysfs_write ''/sys/devices/system/cpu/cpufreq/interactive/above_hispeed_delay'' ''100000'' (Wrote 6),
      Sysfs_write ''/sys/module/mali/parameters/mali_boost_rate'' ''1200'' (Wrote 4),
      Sysfs_write ''/sys/module/mali/parameters/mali_boost_duration'' ''500'' (Wrote 3)]"
proof -
  let ?w = "boot_world (sysfs_of (''interactive'' @ [LF]) (''1008000'' @ [LF])) wr_ok"
  let ?g = "''interactive'' @ NUL # NUL # replicate 67 CHR ''?''"
  have h1: "get_scaling_governor ?w (stack_buf ?w 80) 80 = Some (0, ?g)" by code_simp
  have h2: "cstr ?g = ''interactive''" by code_simp
  have h3: "length (current_governor ?w) = MAX_BUF_SZ" by code_simp
  have t: "trace ?w = []" by (simp add: boot_world_def)
  have r: "wr_result ?w p s = Wrote (length s)" for p s
    by (simp add: wr_result_def boot_world_def wr_ok_def)
  from init_interactive_writes [OF h1 h2 h3, of 1, unfolded t r] show ?thesis
    by (simp add: eval_nat_numeral)
qed

text \<open>
  Claim C8. When the governor reads successfully as a name that is neither
  \<open>interactive\<close> nor \<open>ondemand\<close>, \<open>sun4i_power_init\<close> returns and the calls of
  \<open>sysfs_write\<close> it has made are exactly the two Mali attributes, mali\_boost\_rate 1200 and
  mali\_boost\_duration 500: no governor tuning attribute is written.
\<close>

theorem init_unrecognized_writes:
  assumes "get_scaling_governor w (stack_buf w 80) 80 = Some (0, g)"
    and "cstr g \<noteq> ''interactive''" and "cstr g \<noteq> ''ondemand''"
    and "length (current_governor w) = MAX_BUF_SZ"
  shows "\<exists>w'. sun4i_power_init w module = Some w' \<and>
    trace w' = trace w @
     [Sysfs_write ''/sys/module/mali/parameters/mali_boost_rate'' ''1200''
        (wr_result w ''/sys/module/mali/parameters/mali_boost_rate'' ''1200''),
      Sysfs_write ''/sys/module/mali/parameters/mali_boost_duration'' ''500''
        (wr_result w ''/sys/module/mali/parameters/mali_boost_duration'' ''500'')]"
  by (simp add: sun4i_power_init_other [OF assms])

theorem init_unrecognized_writes_witness:
  "\<exists>w'. sun4i_power_init
          (boot_world (sysfs_of (''performance'' @ [LF]) (''1008000'' @ [LF])) wr_ok) 1
        = Some w' \<and>
    trace w' =
     [Sysfs_write ''/sys/module/mali/parameters/mali_boost_rate'' ''1200'' (Wrote 4),
      Sysfs_write ''/sys/module/mali/parameters/mali_boost_duration'' ''500'' (Wrote 3)]"
proof -
  let ?w = "boot_world (sysfs_of (''performance'' @ [LF]) (''1008000'' @ [LF])) wr_ok"
  let ?g = "''performance'' @ NUL # NUL # replicate 67 CHR ''?''"
  have h1: "get_scaling_governor ?w (stack_buf ?w 80) 80 = Some (0, ?g)" by code_simp
  have h2: "cstr ?g \<noteq> ''interactive''" by code_simp
  have h3: "cstr ?g \<noteq> ''ondemand''" by code_simp
  have h4: "length (current_governor ?w) = MAX_BUF_SZ" by code_simp
  have t: "trace ?w = []" by (simp add: boot_world_def)
  have r: "wr_result ?w p s = Wrote (length s)" for p s
    by (simp add: wr_result_def boot_world_def wr_ok_def)
  from init_unrecognized_writes [OF h1 h2 h3 h4, of 1, unfolded t r] show ?thesis
    by (simp add: eval_nat_numeral)
qed

subsection \<open>Screen off and on\<close>

lemma strncmp_prefix:
  "NUL \<notin> set p \<Longrightarrow> NUL \<in> set a \<Longrightarrow>
   \<exists>c. strncmp a (p @ y) (length p) = Some c \<and> (c = 0 \<longleftrightarrow> take (length p) a = p)"
proof (induction p arbitrary: a)
  case Nil
  show ?case by simp
next
  case (Cons x p)
  from Cons.prems obtain z a' where a: "a = z # a'" by (cases a) auto
  show ?case
  proof (cases "z = x")
    case True
    with Cons.prems a have "NUL \<notin> set p" "NUL \<in> set a'" by auto
    from Cons.IH [OF this] True Cons.prems a show ?thesis by auto
  next
    case False
    then show ?thesis using a by simp
  qed
qed

lemma screen_off_max_freq_string:
  "strlen screen_off_max_freq = Some 6" "cstr screen_off_max_freq = ''696000''"
  "NUL \<in> set screen_off_max_freq"
  by code_simp+

lemma strncmp_screen_off:
  assumes "NUL \<in> set buf"
  shows "\<exists>c. strncmp buf screen_off_max_freq 6 = Some c \<and> (c = 0 \<longleftrightarrow> take 6 buf = ''696000'')"
proof -
  have l: "length ''696000'' = 6" by simp
  have n: "NUL \<notin> set ''696000''" by simp
  from strncmp_prefix [OF n assms, of "replicate 14 NUL", unfolded l] show ?thesis
    unfolding screen_off_max_freq_def .
qed

lemma set_interactive_off_read_fails:
  assumes "sysfs_read w SCALINGMAXFREQ (stack_buf w MAX_BUF_SZ) (int MAX_BUF_SZ) = Some (- 1, b)"
  shows "sun4i_power_set_interactive w module 0 =
           Some (emit w (Sysfs_write SCALINGMAXFREQ ''696000'' (wr_result w SCALINGMAXFREQ ''696000'')))"
  using sysfs_write_terminated [OF screen_off_max_freq_string(3), of w SCALINGMAXFREQ]
  by (simp add: sun4i_power_set_interactive_def assms screen_off_max_freq_string)

lemma set_interactive_off_skip:
  assumes "sysfs_read w SCALINGMAXFREQ (stack_buf w MAX_BUF_SZ) (int MAX_BUF_SZ) = Some (0, b)"
    and "take 6 b = ''696000''"
  shows "sun4i_power_set_interactive w module 0 =
           Some (emit w (Sysfs_write SCALINGMAXFREQ ''696000'' (wr_result w SCALINGMAXFREQ ''696000'')))"
proof -
  from sysfs_read_result [OF assms(1)] have "NUL \<in> set b" by simp
  from strncmp_screen_off [OF this] assms(2)
  have c: "strncmp b screen_off_max_freq 6 = Some 0" by auto
  show ?thesis
    using sysfs_write_terminated [OF screen_off_max_freq_string(3), of w SCALINGMAXFREQ]
    by (simp add: sun4i_power_set_interactive_def assms(1) c screen_off_max_freq_string)
qed

lemma set_interactive_off_save:
  assumes "sysfs_read w SCALINGMAXFREQ (stack_buf w MAX_BUF_SZ) (int MAX_BUF_SZ) = Some (0, b)"
    and "take 6 b \<noteq> ''696000''" and "length (scaling_max_freq w) = MAX_BUF_SZ"
  shows "sun4i_power_set_interactive w module 0 =
           Some (emit (w\<lparr>scaling_max_freq := b\<rparr>)
                   (Sysfs_write SCALINGMAXFREQ ''696000'' (wr_result w SCALINGMAXFREQ ''696000'')))"
proof -
  from sysfs_read_result [OF assms(1)] have b: "NUL \<in> set b" "length b = MAX_BUF_SZ" by simp_all
  from strncmp_screen_off [OF b(1)] assms(2)
  obtain c where c: "strncmp b screen_off_max_freq 6 = Some c" "c \<noteq> 0" by auto
  have m: "memcpy (scaling_max_freq w) b MAX_BUF_SZ = Some b"
    using b(2) assms(3) by (simp add: memcpy_def)
  have r: "wr_result (w\<lparr>scaling_max_freq := b\<rparr>) = wr_result w"
    by (simp add: fun_eq_iff wr_result_def split: sum.splits)
  show ?thesis
    using sysfs_write_terminated [OF screen_off_max_freq_string(3), of "w\<lparr>scaling_max_freq := b\<rparr>" SCALINGMAXFREQ]
    by (simp add: sun4i_power_set_interactive_def assms(1) c m r screen_off_max_freq_string)
qed

lemma set_interactive_on:
  assumes "on \<noteq> 0" "NUL \<in> set (scaling_max_freq w)"
  shows "sun4i_power_set_interactive w module on =
           Some (emit w (Sysfs_write SCALINGMAXFREQ (cstr (scaling_max_freq w))
                           (wr_result w SCALINGMAXFREQ (cstr (scaling_max_freq w)))))"
  using assms by (simp add: sun4i_power_set_interactive_def sysfs_write_terminated)

lemma sysfs_read_max_freq:
  assumes "rd_attr w SCALINGMAXFREQ = Rd_content d"
  shows "sysfs_read w SCALINGMAXFREQ (stack_buf w MAX_BUF_SZ) (int MAX_BUF_SZ) =
           Some (0, take 19 d @ NUL # drop (Suc (min (length d) 19)) (stack_buf w MAX_BUF_SZ))"
proof -
  have "size_t (int MAX_BUF_SZ - 1) = 19" by (simp add: size_t_def MAX_BUF_SZ_def)
  with sysfs_read_content [OF assms, of "int MAX_BUF_SZ" "stack_buf w MAX_BUF_SZ"]
  show ?thesis by (simp add: MAX_BUF_SZ_def)
qed

text \<open>
  Claim C10. When reading the current maximum frequency fails (\<open>sysfs_read\<close> returns -1),
  \<open>sun4i_power_set_interactive\<close> with \<open>on = 0\<close> leaves \<open>scaling_max_freq\<close>, the cached
  restore frequency, as it was and still calls \<open>sysfs_write\<close> with the screen-off
  frequency 696000 on the max-frequency attribute.
\<close>

theorem set_interactive_off_read_failure:
  assumes "sysfs_read w SCALINGMAXFREQ (stack_buf w MAX_BUF_SZ) (int MAX_BUF_SZ) = Some (- 1, b)"
  shows "\<exists>w'. sun4i_power_set_interactive w module 0 = Some w' \<and>
              scaling_max_freq w' = scaling_max_freq w \<and>
              trace w' = trace w @
                [Sysfs_write SCALINGMAXFREQ ''696000'' (wr_result w SCALINGMAXFREQ ''696000'')]"
  by (simp add: set_interactive_off_read_fails [OF assms] emit_def)

theorem set_interactive_off_read_failure_witness:
  "\<exists>w'. sun4i_power_set_interactive (boot_world sysfs_unreadable wr_ok) 1 0 = Some w' \<and>
        scaling_max_freq w' = scaling_max_freq_init \<and>
        trace w' = [Sysfs_write SCALINGMAXFREQ ''696000'' (Wrote 6)]"
proof -
  let ?w = "boot_world sysfs_unreadable wr_ok"
  have h: "sysfs_read ?w SCALINGMAXFREQ (stack_buf ?w MAX_BUF_SZ) (int MAX_BUF_SZ)
             = Some (- 1, stack_buf ?w MAX_BUF_SZ)"
    by (simp add: sysfs_read_def boot_world_def sysfs_unreadable_def)
  have t: "trace ?w = []" "scaling_max_freq ?w = scaling_max_freq_init"
    by (simp_all add: boot_world_def)
  have r: "wr_result ?w p s = Wrote (length s)" for p s
    by (simp add: wr_result_def boot_world_def wr_ok_def)
  from set_interactive_off_read_failure [OF h, of 1, unfolded t r] show ?thesis
    by (simp add: eval_nat_numeral)
qed

text \<open>
  Claim C4. When the max-frequency attribute already holds the screen-off frequency (its
  content begins with the text of \<open>screen_off_max_freq\<close>, as ``696000'' and
  ``696000\textbackslash n'' do), \<open>sun4i_power_set_interactive\<close> with \<open>on = 0\<close> returns
  and leaves \<open>scaling_max_freq\<close>, the cached restore frequency, unchanged.
\<close>

theorem set_interactive_off_guard:
  assumes "rd_attr w SCALINGMAXFREQ = Rd_content d"
    and "take (length (cstr screen_off_max_freq)) d = cstr screen_off_max_freq"
  shows "\<exists>w'. sun4i_power_set_interactive w module 0 = Some w' \<and>
              scaling_max_freq w' = scaling_max_freq w"
proof -
  have l: "length ''696000'' = 6" by simp
  note d = assms(2) [unfolded screen_off_max_freq_string(2) l]
  have "6 \<le> length d" using arg_cong [OF d, of length] by simp
  then have "take 6 (take 19 d @ NUL # drop (Suc (min (length d) 19)) (stack_buf w MAX_BUF_SZ)) = take 6 d"
    by simp
  from this d
  have "take 6 (take 19 d @ NUL # drop (Suc (min (length d) 19)) (stack_buf w MAX_BUF_SZ)) = ''696000''"
    by (rule trans)
  from set_interactive_off_skip [OF sysfs_read_max_freq [OF assms(1)] this, of module]
  show ?thesis by (simp add: emit_def)
qed

theorem set_interactive_off_guard_witness:
  "\<exists>w'. sun4i_power_set_interactive
          (boot_world (sysfs_of (''interactive'' @ [LF]) (''696000'' @ [LF])) wr_ok) 1 0 = Some w' \<and>
        scaling_max_freq w' = scaling_max_freq_init"
proof -
  let ?w = "boot_world (sysfs_of (''interactive'' @ [LF]) (''696000'' @ [LF])) wr_ok"
  have h1: "rd_attr ?w SCALINGMAXFREQ = Rd_content (''696000'' @ [LF])" by code_simp
  have h2: "take (length (cstr screen_off_max_freq)) (''696000'' @ [LF]) = cstr screen_off_max_freq"
    by code_simp
  have t: "scaling_max_freq ?w = scaling_max_freq_init" by (simp add: boot_world_def)
  from set_interactive_off_guard [OF h1 h2, of 1, unfolded t] show ?thesis .
qed

text \<open>
  Claim C3, as the code has it. The claim as stated fails when the frequency active before
  the screen goes off is the screen-off frequency itself: the guard skips the save and the
  value written back is the one cached earlier.
\<close>

theorem screen_off_on_counterexample:
  "rd_attr (boot_world (sysfs_of (''interactive'' @ [LF]) (''696000'' @ [LF])) wr_ok) SCALINGMAXFREQ
     = Rd_content (''696000'' @ [LF]) \<and>
   map_option trace
     (screen_off_then_on (boot_world (sysfs_of (''interactive'' @ [LF]) (''696000'' @ [LF])) wr_ok) 1)
     = Some [Sysfs_write SCALINGMAXFREQ ''696000'' (Wrote 6),
             Sysfs_write SCALINGMAXFREQ ''1008000'' (Wrote 7)]"
  by code_simp

text \<open>
  Claim C3, amended. Let \<open>V\<close> be the content of the max-frequency attribute when the screen
  goes off, fitting the array (fewer than \<open>MAX_BUF_SZ\<close> bytes, no NUL) and not beginning
  with the screen-off text 696000. Then \<open>sun4i_power_set_interactive\<close> with \<open>on = 0\<close>
  returns, and any later call with \<open>on \<noteq> 0\<close> made while the cached restore frequency is
  still the one that call left calls \<open>sysfs_write\<close> on the max-frequency attribute with
  exactly \<open>V\<close>.
\<close>

theorem screen_off_on_restores:
  assumes "rd_attr w SCALINGMAXFREQ = Rd_content V"
    and "length V < MAX_BUF_SZ" and "NUL \<notin> set V"
    and "take (length (cstr screen_off_max_freq)) V \<noteq> cstr screen_off_max_freq"
    and "length (scaling_max_freq w) = MAX_BUF_SZ"
  shows "\<exists>w1. sun4i_power_set_interactive w module 0 = Some w1 \<and>
           (\<forall>w2 on. scaling_max_freq w2 = scaling_max_freq w1 \<longrightarrow> on \<noteq> 0 \<longrightarrow>
              sun4i_power_set_interactive w2 module on =
                Some (emit w2 (Sysfs_write SCALINGMAXFREQ V (wr_result w2 SCALINGMAXFREQ V))))"
proof -
  let ?b = "V @ NUL # drop (Suc (length V)) (stack_buf w MAX_BUF_SZ)"
  have l: "length ''696000'' = 6" by simp
  note d = assms(4) [unfolded screen_off_max_freq_string(2) l]
  have V: "take 19 V = V" "min (length V) 19 = length V"
    using assms(2) by (simp_all add: MAX_BUF_SZ_def)
  have rd: "sysfs_read w SCALINGMAXFREQ (stack_buf w MAX_BUF_SZ) (int MAX_BUF_SZ) = Some (0, ?b)"
    using sysfs_read_max_freq [OF assms(1)] by (simp only: V)
  have ne: "take 6 ?b \<noteq> ''696000''"
  proof (cases "6 \<le> length V")
    case True
    then have "take 6 ?b = take 6 V" by simp
    with d show ?thesis by simp
  next
    case False
    then have "NUL \<in> set (take 6 ?b)" by (simp add: take_Cons')
    moreover have "NUL \<notin> set ''696000''" by simp
    ultimately show ?thesis by metis
  qed
  note off = set_interactive_off_save [OF rd ne assms(5), of module]
  have c: "cstr ?b = V" by (rule cstr_append_NUL [OF assms(3)])
  have "sun4i_power_set_interactive w2 module on =
          Some (emit w2 (Sysfs_write SCALINGMAXFREQ V (wr_result w2 SCALINGMAXFREQ V)))"
    if "scaling_max_freq w2 = ?b" "on \<noteq> 0" for w2 on
    using set_interactive_on [of on w2 module] that c by simp
  with off show ?thesis by (simp add: emit_def)
qed

theorem screen_off_on_restores_witness:
  "\<exists>w1. sun4i_power_set_interactive
           (boot_world (sysfs_of (''interactive'' @ [LF]) (''1008000'' @ [LF])) wr_ok) 1 0 = Some w1 \<and>
        sun4i_power_set_interactive w1 1 1 =
          Some (emit w1 (Sysfs_write SCALINGMAXFREQ (''1008000'' @ [LF])
                           (wr_result w1 SCALINGMAXFREQ (''1008000'' @ [LF]))))"
proof -
  let ?w = "boot_world (sysfs_of (''interactive'' @ [LF]) (''1008000'' @ [LF])) wr_ok"
  have h1: "rd_attr ?w SCALINGMAXFREQ = Rd_content (''1008000'' @ [LF])" by code_simp
  have h2: "length (''1008000'' @ [LF]) < MAX_BUF_SZ" by code_simp
  have h3: "NUL \<notin> set (''1008000'' @ [LF])" by code_simp
  have h4: "take (length (cstr screen_off_max_freq)) (''1008000'' @ [LF]) \<noteq> cstr screen_off_max_freq"
    by code_simp
  have h5: "length (scaling_max_freq ?w) = MAX_BUF_SZ" by code_simp
  from screen_off_on_restores [OF h1 h2 h3 h4 h5, of 1] obtain w1 where
    w1: "sun4i_power_set_interactive ?w 1 0 = Some w1"
    and on: "\<And>w2 on. scaling_max_freq w2 = scaling_max_freq w1 \<Longrightarrow> on \<noteq> 0 \<Longrightarrow>
               sun4i_power_set_interactive w2 1 on =
                 Some (emit w2 (Sysfs_write SCALINGMAXFREQ (''1008000'' @ [LF])
                                  (wr_result w2 SCALINGMAXFREQ (''1008000'' @ [LF]))))"
    by blast
  have "(1::int) \<noteq> 0" by simp
  from w1 on [OF refl this] show ?thesis by blast
qed

subsection \<open>Formatting the duration\<close>








subsection \<open>The boost hint after the handle has been obtained\<close>


lemma wr_result_heap [simp]: "wr_result (w\<lparr>heap := h\<rparr>) = wr_result w"
  by (simp add: fun_eq_iff wr_result_def split: sum.splits)







subsection \<open>Obtaining the handle again\<close>









text \<open>
  Claim C1, evaluated where the code departs from it. The handle is open on descriptor 5, the
  hint carries no data (duration text ``1'') and the write to the handle fails with EINVAL.
  \<open>strerror_r\<close> then overwrites \<open>buf\<close>, and the text handed to the GPU boost-pulse file is
  the error message, not the duration text that was written to the handle.
\<close>

theorem hint_failed_write_sends_error_text:
  "map_option trace
     (sun4i_power_hint
        (boosting_world (sysfs_of (''interactive'' @ [LF]) (''1008000'' @ [LF])) wr_boost_fails)
        1 POWER_HINT_INTERACTION 0)
   = Some [Fd_write 5 ''1'' (Inl 22), Fd_close 5,
           Sysfs_write BOOSTPULSE_MALI ''Invalid argument'' (Wrote 16)]"
  by code_simp

text \<open>
  Claim C2, evaluated where the code departs from it. With an unreadable governor
  \<open>sun4i_power_init\<close> stores the flag through its uninitialised local \<open>sun4i\<close>, not
  through \<open>module\<close>. Where that pointer addresses no module object the store is out of
  bounds; where it happens to address another object, that object is flagged and the
  controller at address 1 keeps \<open>boostpulse_warned = 0\<close>.
\<close>

theorem init_unreadable_governor_wild_store:
  "sun4i_power_init (boot_world sysfs_unreadable wr_ok) 1 = None \<and>
   Option.bind (sun4i_power_init (aliased_world sysfs_unreadable wr_ok) 1) (module_at 1)
     = Some \<lparr>boostpulse_fd = - 1, boostpulse_warned = 0\<rparr> \<and>
   Option.bind (sun4i_power_init (aliased_world sysfs_unreadable wr_ok) 1) (module_at 7)
     = Some \<lparr>boostpulse_fd = - 1, boostpulse_warned = 1\<rparr>"
  by code_simp

text \<open>What does hold for an unreadable governor: nothing but that one store happens.\<close>

lemma sun4i_power_init_unreadable:
  assumes "get_scaling_governor w (stack_buf w 80) 80 = Some (- 1, g)"
  shows "sun4i_power_init w module = store_warned w (stack_ptr w) 1"
  by (simp add: sun4i_power_init_def assms)

end
